theory Spec2Isabelle
  imports Main
begin

unbundle bit_operations_syntax

section \<open>The command tree\<close>

text \<open>
  Modelled from the spec: the types of the command tree (\<open>word_t\<close>, \<open>simple_command_t\<close>,
  \<open>command_t\<close>), which the parser's header declares and \<open>cmd.c\<close> only reads. The fields
  are the ones \<open>cmd.c\<close> reads, under its names (\<open>inp\<close> for the field \<open>in\<close>). A \<open>char *\<close>
  that the code tests against \<open>NULL\<close> is a \<open>string option\<close>, a nullable pointer to a
  structure is an option of that structure, and the \<open>NULL\<close>-terminated chain of parameters
  linked through \<open>next_word\<close> is a list.
\<close>

datatype word_t = Word (string: "char list option") (expand: bool) (next_part: "word_t option")

record simple_command_t =
  verb :: "word_t option"
  params :: "word_t list"
  inp :: "word_t option"
  out :: "word_t option"
  err :: "word_t option"
  io_flags :: int

text \<open>
  Modelled from the spec: the operator tags of the parser's header. The spec names the
  leaf and five composite operators; \<open>OP_OTHER\<close> stands for every other value of the tag,
  the one the \<open>default\<close> branch of \<open>parse_command\<close> receives.
\<close>

datatype operator_t =
  OP_NONE | OP_SEQUENTIAL | OP_PARALLEL | OP_CONDITIONAL_NZERO | OP_CONDITIONAL_ZERO
  | OP_PIPE | OP_OTHER

datatype command_t =
  Command (cmd1: "command_t option") (cmd2: "command_t option") (op: operator_t)
    (scmd: "simple_command_t option")

section \<open>The process and the operating system\<close>

text \<open>
  The state of the interpreting process: its descriptor table (entry \<open>i\<close> holds the open
  file description descriptor \<open>i\<close> refers to), the open file descriptions created so far
  (a description is named by its index), the environment, and the system calls with an
  outside effect made so far.
\<close>

datatype flag = O_RDONLY | O_CREAT | O_WRONLY | O_APPEND | O_TRUNC

datatype desc = File string "flag list" | Pipe_read | Pipe_write

datatype event =
  E_open string "flag list" bool
  | E_chdir string bool
  | E_setenv string string bool
  | E_pipe bool
  | E_fork bool
  | E_child
  | E_wait bool

record world =
  fdt :: "nat option list"
  descs :: "desc list"
  environ :: "(string \<times> string) list"
  trace :: "event list"

text \<open>
  Modelled from the spec: the macro \<open>DIE\<close> of the missing \<open>utils.h\<close>, which ends the process
  with a diagnostic when its condition holds (the fatal failures of the spec). \<open>Died\<close> is
  that end; the other two values are the ways a process stops without returning from the
  interpreter that C itself has.
\<close>

datatype error =
  Died          \<comment> \<open>the \<open>DIE\<close> macro ended the process\<close>
  | Undefined   \<comment> \<open>a null pointer was dereferenced or an indeterminate value read\<close>
  | Blocked     \<comment> \<open>a wait for a child that never ends\<close>

datatype exec_result =
  Exec_fails            \<comment> \<open>\<open>execvp\<close> returned -1\<close>
  | Terminates int      \<comment> \<open>the program ran and ended with this wait status\<close>
  | Runs_forever

text \<open>
  What the code takes from outside \<open>cmd.c\<close>: the constants of the missing headers
  (\<open>SHELL_EXIT\<close>, the two append bits of \<open>io_flags\<close>, the exit code of \<open>DIE\<close>), the word
  expansion routine \<open>get_word\<close>, and the answers of the operating system. Every answer may
  depend on the whole state of the asking process, its history included.
\<close>

record os =
  SHELL_EXIT :: int
  IO_OUT_APPEND :: int
  IO_ERR_APPEND :: int
  die_status :: int
  get_word :: "world \<Rightarrow> word_t \<Rightarrow> string"
  open_ok :: "world \<Rightarrow> string \<Rightarrow> flag list \<Rightarrow> bool"
  chdir_ok :: "world \<Rightarrow> string \<Rightarrow> bool"
  setenv_ok :: "world \<Rightarrow> string \<Rightarrow> string \<Rightarrow> bool"
  strdup_ok :: "world \<Rightarrow> bool"
  pipe_ok :: "world \<Rightarrow> bool"
  fork_ok :: "world \<Rightarrow> bool"
  wait_ok :: "world \<Rightarrow> bool"
  execvp :: "world \<Rightarrow> string list \<Rightarrow> exec_result"

subsection \<open>Descriptors\<close>

definition fd_lookup :: "world \<Rightarrow> int \<Rightarrow> nat option" where
  "fd_lookup w fd = (if 0 \<le> fd \<and> nat fd < length (fdt w) then fdt w ! nat fd else None)"

fun lowest_free :: "nat option list \<Rightarrow> nat" where
  "lowest_free [] = 0"
| "lowest_free (None # t) = 0"
| "lowest_free (Some d # t) = Suc (lowest_free t)"

definition fd_set :: "nat option list \<Rightarrow> nat \<Rightarrow> nat option \<Rightarrow> nat option list" where
  "fd_set t n v = (t @ replicate (Suc n - length t) None)[n := v]"

definition log :: "event \<Rightarrow> world \<Rightarrow> world" where
  "log e w = w\<lparr>trace := trace w @ [e]\<rparr>"

text \<open>\<open>open\<close>: a new open file description on the lowest free descriptor, or -1.\<close>

definition sys_open :: "os \<Rightarrow> string \<Rightarrow> flag list \<Rightarrow> world \<Rightarrow> int \<times> world" where
  "sys_open os path flags w =
     (if open_ok os w path flags
      then (int (lowest_free (fdt w)),
            log (E_open path flags True)
              (w\<lparr>fdt := fd_set (fdt w) (lowest_free (fdt w)) (Some (length (descs w))),
                 descs := descs w @ [File path flags]\<rparr>))
      else (-1, log (E_open path flags False) w))"

text \<open>\<open>dup2\<close>: the new descriptor refers to the old one's description; -1 when the old
  descriptor is not open.\<close>

definition sys_dup2 :: "int \<Rightarrow> int \<Rightarrow> world \<Rightarrow> int \<times> world" where
  "sys_dup2 oldfd newfd w =
     (case fd_lookup w oldfd of
        None \<Rightarrow> (-1, w)
      | Some d \<Rightarrow>
          if newfd < 0 then (-1, w)
          else (newfd, w\<lparr>fdt := fd_set (fdt w) (nat newfd) (Some d)\<rparr>))"

definition sys_dup :: "int \<Rightarrow> world \<Rightarrow> int \<times> world" where
  "sys_dup oldfd w =
     (case fd_lookup w oldfd of
        None \<Rightarrow> (-1, w)
      | Some d \<Rightarrow>
          (int (lowest_free (fdt w)),
           w\<lparr>fdt := fd_set (fdt w) (lowest_free (fdt w)) (Some d)\<rparr>))"

definition sys_close :: "int \<Rightarrow> world \<Rightarrow> int \<times> world" where
  "sys_close fd w =
     (case fd_lookup w fd of
        None \<Rightarrow> (-1, w)
      | Some d \<Rightarrow> (0, w\<lparr>fdt := (fdt w)[nat fd := None]\<rparr>))"

text \<open>\<open>pipe\<close>: two new descriptions, the read end on the lowest free descriptor and the
  write end on the next one.\<close>

definition sys_pipe :: "os \<Rightarrow> world \<Rightarrow> int \<times> (int \<times> int) \<times> world" where
  "sys_pipe os w =
     (if pipe_ok os w
      then (let r = lowest_free (fdt w);
                t1 = fd_set (fdt w) r (Some (length (descs w)));
                wr = lowest_free t1;
                t2 = fd_set t1 wr (Some (Suc (length (descs w))))
            in (0, (int r, int wr),
                log (E_pipe True) (w\<lparr>fdt := t2, descs := descs w @ [Pipe_read, Pipe_write]\<rparr>)))
      else (-1, (-1, -1), log (E_pipe False) w))"

definition sys_chdir :: "os \<Rightarrow> string \<Rightarrow> world \<Rightarrow> int \<times> world" where
  "sys_chdir os path w =
     (if chdir_ok os w path then (0, log (E_chdir path True) w)
      else (-1, log (E_chdir path False) w))"

text \<open>\<open>setenv(name, value, 1)\<close>: the binding replaces any earlier one of the name.\<close>

definition sys_setenv :: "os \<Rightarrow> string \<Rightarrow> string \<Rightarrow> world \<Rightarrow> int \<times> world" where
  "sys_setenv os name val w =
     (if setenv_ok os w name val
      then (0, log (E_setenv name val True)
                 (w\<lparr>environ := (name, val) # filter (\<lambda>kv. fst kv \<noteq> name) (environ w)\<rparr>))
      else (-1, log (E_setenv name val False) w))"

definition getenv :: "world \<Rightarrow> string \<Rightarrow> string option" where
  "getenv w name = map_of (environ w) name"

definition STDIN_FILENO :: int where "STDIN_FILENO = 0"
definition STDOUT_FILENO :: int where "STDOUT_FILENO = 1"
definition STDERR_FILENO :: int where "STDERR_FILENO = 2"
definition EXIT_FAILURE :: int where "EXIT_FAILURE = 1"

text \<open>The wait status of a process that called \<open>exit(n)\<close>, and the macro that reads the
  exit code back.\<close>

definition exited :: "int \<Rightarrow> int" where
  "exited n = (n mod 256) * 256"

definition WEXITSTATUS :: "int \<Rightarrow> int" where
  "WEXITSTATUS status = (status div 256) mod 256"

section \<open>The Redirection Manager\<close>

text \<open>
  One of the three blocks of \<open>solve_redirection\<close>, which differ in the word, the flags and
  the descriptor only: when the target and its string are present, open the path, end the
  process if the open failed, duplicate the new descriptor onto the standard one and close
  the new descriptor. The results of \<open>dup2\<close> and \<open>close\<close> are not looked at.
\<close>

definition redirect :: "os \<Rightarrow> word_t option \<Rightarrow> flag list \<Rightarrow> int \<Rightarrow> world \<Rightarrow> error + world" where
  "redirect os x flags target w =
     (case x of
        None \<Rightarrow> Inr w
      | Some wd \<Rightarrow>
          (case string wd of
             None \<Rightarrow> Inr w
           | Some path \<Rightarrow>
               (case sys_open os path flags w of
                  (fd, w1) \<Rightarrow>
                    if fd = -1 then Inl Died
                    else Inr (snd (sys_close fd (snd (sys_dup2 fd target w1)))))))"

text \<open>The last statement of \<open>solve_redirection\<close>; \<open>strcmp\<close> on a null string is undefined.\<close>

definition alias_err :: "simple_command_t \<Rightarrow> world \<Rightarrow> error + world" where
  "alias_err s w =
     (case (out s, err s) of
        (Some o_w, Some e_w) \<Rightarrow>
          (case (string o_w, string e_w) of
             (Some a, Some b) \<Rightarrow>
               if a = b then Inr (snd (sys_dup2 STDOUT_FILENO STDERR_FILENO w)) else Inr w
           | _ \<Rightarrow> Inl Undefined)
      | _ \<Rightarrow> Inr w)"

definition solve_redirection :: "os \<Rightarrow> simple_command_t \<Rightarrow> world \<Rightarrow> error + world" where
  "solve_redirection os s w =
     (let append_or_trunc_out =
            (if io_flags s AND IO_OUT_APPEND os \<noteq> 0 then O_APPEND else O_TRUNC);
          append_or_trunc_err =
            (if io_flags s AND IO_ERR_APPEND os \<noteq> 0 then O_APPEND else O_TRUNC)
      in case redirect os (inp s) [O_RDONLY] STDIN_FILENO w of
           Inl e \<Rightarrow> Inl e
         | Inr w1 \<Rightarrow>
             (case redirect os (out s) [O_CREAT, O_WRONLY, append_or_trunc_out] STDOUT_FILENO w1 of
                Inl e \<Rightarrow> Inl e
              | Inr w2 \<Rightarrow>
                  (case redirect os (err s) [O_CREAT, O_WRONLY, append_or_trunc_err]
                          STDERR_FILENO w2 of
                     Inl e \<Rightarrow> Inl e
                   | Inr w3 \<Rightarrow> alias_err s w3)))"

definition restore_redirection :: "int \<Rightarrow> int \<Rightarrow> int \<Rightarrow> world \<Rightarrow> world" where
  "restore_redirection saved_stdin saved_stdout saved_stderr w =
     (let w1 = snd (sys_close saved_stdin (snd (sys_dup2 saved_stdin STDIN_FILENO w)));
          w2 = snd (sys_close saved_stdout (snd (sys_dup2 saved_stdout STDOUT_FILENO w1)))
      in snd (sys_close saved_stderr (snd (sys_dup2 saved_stderr STDERR_FILENO w2))))"

section \<open>The Simple Command Executor\<close>

text \<open>\<open>shell_cd\<close> receives the head of the parameter chain.\<close>

definition shell_cd :: "os \<Rightarrow> word_t list \<Rightarrow> world \<Rightarrow> error + bool \<times> world" where
  "shell_cd os dir w =
     (case dir of
        [] \<Rightarrow> Inr (True, w)
      | d # next_word \<Rightarrow>
          if next_word \<noteq> [] then Inr (False, w)
          else (case string d of
                  None \<Rightarrow> Inl Undefined
                | Some path \<Rightarrow>
                    (case sys_chdir os path w of (res, w1) \<Rightarrow> Inr (res = 0, w1))))"

definition shell_exit :: "os \<Rightarrow> int" where
  "shell_exit os = SHELL_EXIT os"

text \<open>
  \<open>strtok_r\<close> on a string and the delimiters: skip the leading delimiters; with nothing
  left there is no token; otherwise the token runs to the next delimiter, and the saved
  position is behind that delimiter (or at the end of the string).
\<close>

definition strtok_r :: "string \<Rightarrow> string \<Rightarrow> string option \<times> string" where
  "strtok_r str delim =
     (let s = dropWhile (\<lambda>c. c \<in> set delim) str
      in if s = [] then (None, [])
         else (Some (takeWhile (\<lambda>c. c \<notin> set delim) s),
               drop 1 (dropWhile (\<lambda>c. c \<notin> set delim) s)))"

text \<open>The assignment branch of \<open>parse_simple\<close>, entered when \<open>strchr(cmd, '=')\<close> finds a
  character.\<close>

definition assign :: "os \<Rightarrow> string \<Rightarrow> world \<Rightarrow> int \<times> world" where
  "assign os cmd w =
     (if strdup_ok os w
      then (case strtok_r cmd ''='' of
              (name, save) \<Rightarrow>
                (case strtok_r save ''='' of
                   (val, save') \<Rightarrow>
                     (case (name, val) of
                        (Some n, Some v) \<Rightarrow> sys_setenv os n v w
                      | _ \<Rightarrow> (-1, w))))
      else (-1, w))"

text \<open>
  The child of the external-command branch, from \<open>pid == 0\<close> to the end of its block,
  as the wait status its parent will read: redirection, the argument vector made of the
  verb's string and the expanded parameters, \<open>execvp\<close>. A \<open>DIE\<close> in the child ends the
  child with the exit code of \<open>DIE\<close>.
\<close>

definition external_child :: "os \<Rightarrow> simple_command_t \<Rightarrow> string \<Rightarrow> world \<Rightarrow> error + int" where
  "external_child os s vs w =
     (case solve_redirection os s w of
        Inl Died \<Rightarrow> Inr (exited (die_status os))
      | Inl e \<Rightarrow> Inl e
      | Inr w1 \<Rightarrow>
          (case execvp os w1 (vs # map (get_word os w1) (params s)) of
             Exec_fails \<Rightarrow> Inr (exited EXIT_FAILURE)
           | Terminates status \<Rightarrow> Inr status
           | Runs_forever \<Rightarrow> Inl Blocked))"

text \<open>The external-command branch in the parent: \<open>fork\<close>, \<open>waitpid\<close>, \<open>WEXITSTATUS\<close>.\<close>

definition external :: "os \<Rightarrow> simple_command_t \<Rightarrow> string \<Rightarrow> world \<Rightarrow> error + int \<times> world" where
  "external os s vs w =
     (if \<not> fork_ok os w then Inl Died
      else (case external_child os s vs (log E_child w) of
              Inl e \<Rightarrow> Inl e
            | Inr status \<Rightarrow>
                if \<not> wait_ok os (log (E_fork True) w) then Inl Died
                else Inr (WEXITSTATUS status, log (E_wait True) (log (E_fork True) w))))"

definition parse_simple :: "os \<Rightarrow> simple_command_t option \<Rightarrow> world \<Rightarrow> error + int \<times> world" where
  "parse_simple os sp w =
     (case sp of
        None \<Rightarrow> Inr (-1, w)
      | Some s \<Rightarrow>
          (case verb s of
             None \<Rightarrow> Inl Undefined
           | Some v \<Rightarrow>
               (case string v of
                  None \<Rightarrow> Inr (-1, w)
                | Some vs \<Rightarrow>
                    (let cmd = get_word os w v;
                         (saved_stdin, w1) = sys_dup STDIN_FILENO w;
                         (saved_stdout, w2) = sys_dup STDOUT_FILENO w1;
                         (saved_stderr, w3) = sys_dup STDERR_FILENO w2
                     in if cmd = ''cd'' then
                          (case solve_redirection os s w3 of
                             Inl e \<Rightarrow> Inl e
                           | Inr w4 \<Rightarrow>
                               (case shell_cd os (params s) w4 of
                                  Inl e \<Rightarrow> Inl e
                                | Inr (res, w5) \<Rightarrow>
                                    Inr (if res then 0 else 1,
                                         restore_redirection saved_stdin saved_stdout
                                           saved_stderr w5)))
                        else if cmd = ''exit'' \<or> cmd = ''quit'' then Inr (shell_exit os, w3)
                        else if CHR ''='' \<in> set cmd then Inr (assign os cmd w3)
                        else external os s vs w3))))"

section \<open>The executors of composite nodes and the Tree Interpreter\<close>

text \<open>
  How the parent sees a child that runs \<open>exit(parse_command(...))\<close>: the wait status of
  the child. A child ended by \<open>DIE\<close> exits with the code of \<open>DIE\<close>.
\<close>

definition child_status :: "os \<Rightarrow> error + int \<times> world \<Rightarrow> error + int" where
  "child_status os r =
     (case r of
        Inr (n, w) \<Rightarrow> Inr (exited n)
      | Inl Died \<Rightarrow> Inr (exited (die_status os))
      | Inl e \<Rightarrow> Inl e)"

text \<open>
  The two blocking waits at the end of \<open>run_in_parallel\<close> and \<open>run_on_pipe\<close>, on the wait
  statuses of the two children. The result of \<open>waitpid\<close> is not looked at, so after a
  failed wait the status variable is read without ever having been written.
\<close>

definition wait_both :: "os \<Rightarrow> error + int \<Rightarrow> error + int \<Rightarrow> world \<Rightarrow> error + (int \<times> int) \<times> world" where
  "wait_both os child1 child2 w =
     (case child1 of
        Inl e \<Rightarrow> Inl e
      | Inr status_cmd1 \<Rightarrow>
          if \<not> wait_ok os w then Inl Undefined
          else (case child2 of
                  Inl e \<Rightarrow> Inl e
                | Inr status_cmd2 \<Rightarrow>
                    if \<not> wait_ok os (log (E_wait True) w) then Inl Undefined
                    else Inr ((status_cmd1, status_cmd2),
                              log (E_wait True) (log (E_wait True) w))))"

text \<open>The descriptor work of the two children of \<open>run_on_pipe\<close> before they interpret
  their sub-tree.\<close>

definition pipe_writer :: "int \<times> int \<Rightarrow> world \<Rightarrow> world" where
  "pipe_writer pipe_des w =
     snd (sys_close (snd pipe_des)
       (snd (sys_dup2 (snd pipe_des) STDOUT_FILENO (snd (sys_close (fst pipe_des) w)))))"

definition pipe_reader :: "int \<times> int \<Rightarrow> world \<Rightarrow> world" where
  "pipe_reader pipe_des w =
     snd (sys_close (fst pipe_des)
       (snd (sys_dup2 (fst pipe_des) STDIN_FILENO (snd (sys_close (snd pipe_des) w)))))"

text \<open>
  The arguments \<open>level\<close> and \<open>father\<close> of the three functions are handed on and never read;
  the model leaves them out.
\<close>

function parse_command :: "os \<Rightarrow> command_t option \<Rightarrow> world \<Rightarrow> error + int \<times> world"
  and run_in_parallel :: "os \<Rightarrow> command_t option \<Rightarrow> command_t option \<Rightarrow> world \<Rightarrow> error + bool \<times> world"
  and run_on_pipe :: "os \<Rightarrow> command_t option \<Rightarrow> command_t option \<Rightarrow> world \<Rightarrow> error + bool \<times> world"
where
  "parse_command os None w = Inr (0, w)"
| "parse_command os (Some (Command c1 c2 opr s)) w =
     (if opr = OP_NONE then parse_simple os s w
      else (case opr of
              OP_SEQUENTIAL \<Rightarrow>
                (case parse_command os c1 w of
                   Inl e \<Rightarrow> Inl e
                 | Inr (r1, w1) \<Rightarrow> parse_command os c2 w1)
            | OP_PARALLEL \<Rightarrow>
                (case run_in_parallel os c1 c2 w of
                   Inl e \<Rightarrow> Inl e
                 | Inr (b, w1) \<Rightarrow> Inr (of_bool b, w1))
            | OP_CONDITIONAL_NZERO \<Rightarrow>
                (case parse_command os c1 w of
                   Inl e \<Rightarrow> Inl e
                 | Inr (r1, w1) \<Rightarrow> if r1 \<noteq> 0 then parse_command os c2 w1 else Inr (0, w1))
            | OP_CONDITIONAL_ZERO \<Rightarrow>
                (case parse_command os c1 w of
                   Inl e \<Rightarrow> Inl e
                 | Inr (r1, w1) \<Rightarrow> if r1 = 0 then parse_command os c2 w1 else Inr (0, w1))
            | OP_PIPE \<Rightarrow>
                (case run_on_pipe os c1 c2 w of
                   Inl e \<Rightarrow> Inl e
                 | Inr (b, w1) \<Rightarrow> Inr (of_bool b, w1))
            | _ \<Rightarrow> Inr (SHELL_EXIT os, w)))"
| "run_in_parallel os c1 c2 w =
     (if \<not> fork_ok os w then Inr (False, log (E_fork False) w)
      else if \<not> fork_ok os (log (E_fork True) w)
        then Inr (False, log (E_fork False) (log (E_fork True) w))
      else (case wait_both os
                   (child_status os (parse_command os c1 (log E_child w)))
                   (child_status os (parse_command os c2 (log E_child (log (E_fork True) w))))
                   (log (E_fork True) (log (E_fork True) w)) of
              Inl e \<Rightarrow> Inl e
            | Inr ((status_cmd1, status_cmd2), w1) \<Rightarrow>
                Inr (WEXITSTATUS status_cmd2 = 0 \<and> WEXITSTATUS status_cmd1 = 0, w1)))"
| "run_on_pipe os c1 c2 w =
     (case sys_pipe os w of
        (rc, pipe_des, w0) \<Rightarrow>
          if rc < 0 then Inl Died
          else if \<not> fork_ok os w0 then Inl Died
          else if \<not> fork_ok os (log (E_fork True) w0) then Inl Died
          else (case wait_both os
                       (child_status os
                          (parse_command os c1 (pipe_writer pipe_des (log E_child w0))))
                       (child_status os
                          (parse_command os c2
                             (pipe_reader pipe_des (log E_child (log (E_fork True) w0)))))
                       (snd (sys_close (snd pipe_des) (snd (sys_close (fst pipe_des)
                          (log (E_fork True) (log (E_fork True) w0)))))) of
                  Inl e \<Rightarrow> Inl e
                | Inr ((status_cmd1, status_cmd2), w1) \<Rightarrow>
                    Inr (WEXITSTATUS status_cmd1 = 0 \<and> WEXITSTATUS status_cmd2 = 0, w1)))"
  by pat_completeness auto

termination
  by (relation "measure (\<lambda>x. case x of
         Inl (os, c, w) \<Rightarrow> 2 * size_option size c
       | Inr (Inl (os, c1, c2, w)) \<Rightarrow> 2 * (size_option size c1 + size_option size c2) + 1
       | Inr (Inr (os, c1, c2, w)) \<Rightarrow> 2 * (size_option size c1 + size_option size c2) + 1)")
    auto

section \<open>Concrete inputs\<close>

text \<open>
  A word of one part, a simple command without redirection, a leaf and a composite node;
  an operating system in which every call succeeds, \<open>/tmp\<close> is the only directory,
  the program \<open>false\<close> exits with 1, \<open>nosuch\<close> is not found and every other program exits
  with 0; and a process that starts with its three standard descriptors on the terminal.
\<close>

definition plain :: "string \<Rightarrow> word_t" where
  "plain str = Word (Some str) False None"

definition simple :: "string \<Rightarrow> string list \<Rightarrow> simple_command_t" where
  "simple v ps =
     \<lparr>verb = Some (plain v), params = map plain ps, inp = None, out = None, err = None,
      io_flags = 0\<rparr>"

definition leaf :: "string \<Rightarrow> string list \<Rightarrow> command_t option" where
  "leaf v ps = Some (Command None None OP_NONE (Some (simple v ps)))"

definition node :: "operator_t \<Rightarrow> command_t option \<Rightarrow> command_t option \<Rightarrow> command_t option" where
  "node opr l r = Some (Command l r opr None)"

definition os0 :: os where
  "os0 =
     \<lparr>SHELL_EXIT = -100, IO_OUT_APPEND = 1, IO_ERR_APPEND = 2, die_status = 1,
      get_word = (\<lambda>w wd. case string wd of Some str \<Rightarrow> str | None \<Rightarrow> []),
      open_ok = (\<lambda>w path flags. True),
      chdir_ok = (\<lambda>w path. path = ''/tmp''),
      setenv_ok = (\<lambda>w name val. True),
      strdup_ok = (\<lambda>w. True),
      pipe_ok = (\<lambda>w. True),
      fork_ok = (\<lambda>w. True),
      wait_ok = (\<lambda>w. True),
      execvp = (\<lambda>w argv.
        if argv = [''false''] then Terminates (exited 1)
        else if take 1 argv = [''nosuch''] then Exec_fails
        else Terminates (exited 0))\<rparr>"

definition w0 :: world where
  "w0 =
     \<lparr>fdt = [Some 0, Some 0, Some 0], descs = [File ''/dev/tty'' [O_RDONLY, O_WRONLY]],
      environ = [], trace = []\<rparr>"

text \<open>The states the concrete runs below end in.\<close>

definition tty_world :: "nat option list \<Rightarrow> (string \<times> string) list \<Rightarrow> event list \<Rightarrow> world" where
  "tty_world t e tr =
     \<lparr>fdt = t, descs = [File ''/dev/tty'' [O_RDONLY, O_WRONLY]], environ = e, trace = tr\<rparr>"

definition w_cd :: world where
  "w_cd = tty_world [Some 0, Some 0, Some 0, None, None, None] [] []"


definition w_exit :: world where
  "w_exit = tty_world [Some 0, Some 0, Some 0, Some 0, Some 0, Some 0] [] []"

definition w_exit_cd :: world where
  "w_exit_cd =
     tty_world [Some 0, Some 0, Some 0, Some 0, Some 0, Some 0, None, None, None] [] []"

definition w_ran :: world where
  "w_ran = tty_world [Some 0, Some 0, Some 0, Some 0, Some 0, Some 0] [] [E_fork True, E_wait True]"

definition w_ran_cd :: world where
  "w_ran_cd =
     tty_world [Some 0, Some 0, Some 0, Some 0, Some 0, Some 0, None, None, None] []
       [E_fork True, E_wait True]"

definition w_assigned :: world where
  "w_assigned =
     tty_world [Some 0, Some 0, Some 0, Some 0, Some 0, Some 0] [(''A'', ''b'')]
       [E_setenv ''A'' ''b'' True]"

definition w_pipe :: world where
  "w_pipe =
     \<lparr>fdt = [Some 0, Some 0, Some 0, None, None],
      descs = [File ''/dev/tty'' [O_RDONLY, O_WRONLY], Pipe_read, Pipe_write],
      environ = [],
      trace = [E_pipe True, E_fork True, E_fork True, E_wait True, E_wait True]\<rparr>"

definition w_par :: world where
  "w_par =
     tty_world [Some 0, Some 0, Some 0] [] [E_fork True, E_fork True, E_wait True, E_wait True]"

definition both_to_f :: simple_command_t where
  "both_to_f = (simple ''ls'' [])\<lparr>out := Some (plain ''f''), err := Some (plain ''f'')\<rparr>"

definition w_both_to_f :: world where
  "w_both_to_f =
     \<lparr>fdt = [Some 0, Some 1, Some 1, None],
      descs = [File ''/dev/tty'' [O_RDONLY, O_WRONLY],
               File ''f'' [O_CREAT, O_WRONLY, O_TRUNC],
               File ''f'' [O_CREAT, O_WRONLY, O_TRUNC]],
      environ = [],
      trace = [E_open ''f'' [O_CREAT, O_WRONLY, O_TRUNC] True,
               E_open ''f'' [O_CREAT, O_WRONLY, O_TRUNC] True]\<rparr>"

definition w_ran_exit :: world where
  "w_ran_exit =
     tty_world [Some 0, Some 0, Some 0, Some 0, Some 0, Some 0, Some 0, Some 0, Some 0] []
       [E_fork True, E_wait True]"

definition out_f_err_dot_f :: simple_command_t where
  "out_f_err_dot_f = (simple ''ls'' [])\<lparr>out := Some (plain ''f''), err := Some (plain ''./f'')\<rparr>"

definition w_out_f_err_dot_f :: world where
  "w_out_f_err_dot_f =
     \<lparr>fdt = [Some 0, Some 1, Some 2, None],
      descs = [File ''/dev/tty'' [O_RDONLY, O_WRONLY],
               File ''f'' [O_CREAT, O_WRONLY, O_TRUNC],
               File ''./f'' [O_CREAT, O_WRONLY, O_TRUNC]],
      environ = [],
      trace = [E_open ''f'' [O_CREAT, O_WRONLY, O_TRUNC] True,
               E_open ''./f'' [O_CREAT, O_WRONLY, O_TRUNC] True]\<rparr>"

definition null_verb :: simple_command_t where
  "null_verb = (simple ''ls'' [])\<lparr>verb := Some (Word None False None)\<rparr>"

definition w_assigned_a :: world where
  "w_assigned_a =
     tty_world [Some 0, Some 0, Some 0, Some 0, Some 0, Some 0] [(''a'', ''b'')]
       [E_setenv ''a'' ''b'' True]"




section \<open>Notions used in the statements\<close>

text \<open>
  The maximal non-empty runs of characters other than \<open>=\<close> in a string, in order;
  defined by recursion on the string, independently of \<open>strtok_r\<close>.
\<close>

fun runs :: "string \<Rightarrow> string list" where
  "runs [] = []"
| "runs (c # cs) =
     (if c = CHR ''='' then runs cs
      else if cs = [] \<or> hd cs = CHR ''='' then [c] # runs cs
      else (case runs cs of [] \<Rightarrow> [[c]] | r # rs \<Rightarrow> (c # r) # rs))"


text \<open>The process after the three \<open>dup\<close> calls at the start of \<open>parse_simple\<close>.\<close>

definition saved :: "world \<Rightarrow> world" where
  "saved w =
     snd (sys_dup STDERR_FILENO (snd (sys_dup STDOUT_FILENO (snd (sys_dup STDIN_FILENO w)))))"

text \<open>The flags \<open>solve_redirection\<close> opens the output target with.\<close>

definition out_flags :: "os \<Rightarrow> simple_command_t \<Rightarrow> flag list" where
  "out_flags os s =
     [O_CREAT, O_WRONLY, if io_flags s AND IO_OUT_APPEND os \<noteq> 0 then O_APPEND else O_TRUNC]"

section \<open>Results on the Tree Interpreter\<close>

text \<open>
  C8: for a SEQUENTIAL node the interpreter evaluates the left sub-tree, keeps only the
  state it leaves (its side effects) and drops its result, then evaluates the right
  sub-tree in that state and returns the right sub-tree's result, whatever the left
  result \<open>r1\<close> was.
\<close>

theorem sequential_returns_right:
  "parse_command os c1 w = Inr (r1, w1) \<Longrightarrow>
   parse_command os (Some (Command c1 c2 OP_SEQUENTIAL s)) w = parse_command os c2 w1"
  by simp

text \<open>The left sub-tree fails with 1 and the node still returns the 0 of the right one.\<close>

theorem sequential_returns_right_witness:
  "parse_command os0 (leaf ''false'' []) w0 = Inr (1, w_ran) \<and>
   parse_command os0 (leaf ''cd'' []) w_ran = Inr (0, w_ran_cd) \<and>
   parse_command os0 (node OP_SEQUENTIAL (leaf ''false'' []) (leaf ''cd'' [])) w0 = Inr (0, w_ran_cd)"
proof -
  have l: "parse_command os0 (leaf ''false'' []) w0 = Inr (1, w_ran)" by code_simp
  have r: "parse_command os0 (leaf ''cd'' []) w_ran = Inr (0, w_ran_cd)" by code_simp
  show ?thesis
    using l r sequential_returns_right [OF l, of "leaf ''cd'' []" None]
    by (simp add: node_def)
qed

text \<open>
  C4: for a COND_IF_ZERO node, when the left sub-tree evaluates to 0 the result is the
  result of the right sub-tree, evaluated in the state the left one left; when the left
  sub-tree evaluates to a nonzero value the result is 0 in the state the left sub-tree
  left, so the right sub-tree is not evaluated.
\<close>

theorem cond_if_zero:
  "parse_command os c1 w = Inr (r1, w1) \<Longrightarrow>
   parse_command os (Some (Command c1 c2 OP_CONDITIONAL_ZERO s)) w =
     (if r1 = 0 then parse_command os c2 w1 else Inr (0, w1))"
  by simp

text \<open>The scenario of the specification: \<open>false\<close> fails, \<open>echo x\<close> is not run, the result
  is 0; and a left sub-tree that succeeds hands over to the right one.\<close>

theorem cond_if_zero_witness:
  "parse_command os0 (leaf ''false'' []) w0 = Inr (1, w_ran) \<and>
   parse_command os0 (node OP_CONDITIONAL_ZERO (leaf ''false'' []) (leaf ''echo'' [''x''])) w0
     = Inr (0, w_ran) \<and>
   parse_command os0 (leaf ''cd'' []) w0 = Inr (0, w_cd) \<and>
   parse_command os0 (node OP_CONDITIONAL_ZERO (leaf ''cd'' []) (leaf ''false'' [])) w0
     = parse_command os0 (leaf ''false'' []) w_cd"
proof -
  have l: "parse_command os0 (leaf ''false'' []) w0 = Inr (1, w_ran)" by code_simp
  have l': "parse_command os0 (leaf ''cd'' []) w0 = Inr (0, w_cd)" by code_simp
  show ?thesis
    using l l' cond_if_zero [OF l, of "leaf ''echo'' [''x'']" None]
      cond_if_zero [OF l', of "leaf ''false'' []" None]
    by (simp add: node_def)
qed

text \<open>
  C9: for a COND_IF_NONZERO node, when the left sub-tree evaluates to 0 the result is 0
  in the state the left sub-tree left, so the right sub-tree is not evaluated; when the
  left sub-tree evaluates to a nonzero value the right sub-tree is evaluated and its
  result is the result of the node.
\<close>

theorem cond_if_nonzero:
  "parse_command os c1 w = Inr (r1, w1) \<Longrightarrow>
   parse_command os (Some (Command c1 c2 OP_CONDITIONAL_NZERO s)) w =
     (if r1 = 0 then Inr (0, w1) else parse_command os c2 w1)"
  by simp

text \<open>A left sub-tree that succeeds ends the node with 0; one that fails hands over.\<close>

theorem cond_if_nonzero_witness:
  "parse_command os0 (leaf ''cd'' []) w0 = Inr (0, w_cd) \<and>
   parse_command os0 (node OP_CONDITIONAL_NZERO (leaf ''cd'' []) (leaf ''false'' [])) w0
     = Inr (0, w_cd) \<and>
   parse_command os0 (leaf ''false'' []) w0 = Inr (1, w_ran) \<and>
   parse_command os0 (node OP_CONDITIONAL_NZERO (leaf ''false'' []) (leaf ''cd'' [])) w0
     = parse_command os0 (leaf ''cd'' []) w_ran"
proof -
  have l: "parse_command os0 (leaf ''cd'' []) w0 = Inr (0, w_cd)" by code_simp
  have l': "parse_command os0 (leaf ''false'' []) w0 = Inr (1, w_ran)" by code_simp
  show ?thesis
    using l l' cond_if_nonzero [OF l, of "leaf ''false'' []" None]
      cond_if_nonzero [OF l', of "leaf ''cd'' []" None]
    by (simp add: node_def)
qed

subsection \<open>PIPE and PARALLEL nodes\<close>

lemma WEXITSTATUS_exited: "WEXITSTATUS (exited n) = n mod 256"
  by (simp add: WEXITSTATUS_def exited_def)

lemma WEXITSTATUS_range: "0 \<le> WEXITSTATUS st \<and> WEXITSTATUS st \<le> 255"
  by (simp add: WEXITSTATUS_def)

lemma wait_both_Inr:
  "wait_both os a b w = Inr ((s1, s2), w') \<Longrightarrow> a = Inr s1 \<and> b = Inr s2"
  by (auto simp: wait_both_def split: sum.splits if_splits)

text \<open>
  When the Pipeline Executor returns, its boolean says that both children ended with
  exit code 0, and the node's status is that boolean as an integer: 1 for success.
\<close>

lemma run_on_pipe_result:
  assumes "run_on_pipe os c1 c2 w = Inr (b, w')"
  shows "\<exists>wa wb s1 s2.
           child_status os (parse_command os c1 wa) = Inr s1 \<and>
           child_status os (parse_command os c2 wb) = Inr s2 \<and>
           b = (WEXITSTATUS s1 = 0 \<and> WEXITSTATUS s2 = 0)"
  using assms
  by (auto split: prod.splits if_splits sum.splits dest!: wait_both_Inr)

lemma run_in_parallel_result:
  assumes "run_in_parallel os c1 c2 w = Inr (b, w')"
    and "fork_ok os w" and "fork_ok os (log (E_fork True) w)"
  shows "\<exists>wa wb s1 s2.
           child_status os (parse_command os c1 wa) = Inr s1 \<and>
           child_status os (parse_command os c2 wb) = Inr s2 \<and>
           b = (WEXITSTATUS s1 = 0 \<and> WEXITSTATUS s2 = 0)"
  using assms
  by (auto split: prod.splits if_splits sum.splits dest!: wait_both_Inr)

lemma pipe_node_status:
  "parse_command os (Some (Command c1 c2 OP_PIPE s)) w =
     (case run_on_pipe os c1 c2 w of
        Inl e \<Rightarrow> Inl e
      | Inr (b, w1) \<Rightarrow> Inr (if b then 1 else 0, w1))"
  by (simp split: sum.splits)

lemma parallel_node_status:
  "parse_command os (Some (Command c1 c2 OP_PARALLEL s)) w =
     (case run_in_parallel os c1 c2 w of
        Inl e \<Rightarrow> Inl e
      | Inr (b, w1) \<Rightarrow> Inr (if b then 1 else 0, w1))"
  by (simp split: sum.splits)

text \<open>
  C1: the specification has a PIPE node return 0 exactly when both children exit with 0.
  In the scenario of the specification, \<open>printf a | cat\<close>, both children exit with 0,
  the Pipeline Executor reports success, and the node returns 1: \<open>parse_command\<close> returns
  the boolean of \<open>run_on_pipe\<close> as it is, where \<open>parse_simple\<close> turns the boolean of
  \<open>shell_cd\<close> into a status with \<open>res ? 0 : 1\<close>.
\<close>

theorem pipe_of_successes_returns_one:
  "run_on_pipe os0 (leaf ''printf'' [''a'']) (leaf ''cat'' []) w0 = Inr (True, w_pipe) \<and>
   parse_command os0 (node OP_PIPE (leaf ''printf'' [''a'']) (leaf ''cat'' [])) w0
     = Inr (1, w_pipe)"
  by code_simp

text \<open>
  C2: the specification has a PARALLEL node return a zero status exactly when both
  children exit with 0. With two children that exit with 0 the Parallel Executor reports
  success and the node returns 1; with a child that fails the node returns 0.
\<close>

theorem parallel_of_successes_returns_one:
  "run_in_parallel os0 (leaf ''true'' []) (leaf ''true'' []) w0 = Inr (True, w_par) \<and>
   parse_command os0 (node OP_PARALLEL (leaf ''true'' []) (leaf ''true'' [])) w0
     = Inr (1, w_par) \<and>
   parse_command os0 (node OP_PARALLEL (leaf ''true'' []) (leaf ''false'' [])) w0
     = Inr (0, w_par)"
  by code_simp

subsection \<open>The exit sentinel\<close>

lemma parse_simple_exit:
  assumes "verb sc = Some v" and "string v = Some vs"
    and "get_word os w v = ''exit'' \<or> get_word os w v = ''quit''"
  shows "parse_simple os (Some sc) w = Inr (SHELL_EXIT os, saved w)"
  using assms by (auto simp: parse_simple_def saved_def split_beta Let_def shell_exit_def)

text \<open>
  C3, as the code has it: the sentinel comes back from the top-level call when it is the
  result the node's rule returns. An \<open>exit\<close> or \<open>quit\<close> leaf and a node with an
  unrecognized operator return it; a SEQUENTIAL node returns it when its right sub-tree
  yields it, and so does a conditional node that evaluates its right sub-tree. A sentinel
  that the left sub-tree of a SEQUENTIAL node yields is dropped with the rest of the left
  result: the node returns whatever the right sub-tree returns.
\<close>

theorem sentinel_from_result_position:
  "(verb sc = Some v \<and> string v = Some vs \<and>
      (get_word os w v = ''exit'' \<or> get_word os w v = ''quit'') \<longrightarrow>
      parse_command os (Some (Command c1 c2 OP_NONE (Some sc))) w = Inr (SHELL_EXIT os, saved w)) \<and>
   parse_command os (Some (Command c1 c2 OP_OTHER s)) w = Inr (SHELL_EXIT os, w) \<and>
   (parse_command os c1 w = Inr (r1, w1) \<and> parse_command os c2 w1 = Inr (SHELL_EXIT os, w2) \<longrightarrow>
      parse_command os (Some (Command c1 c2 OP_SEQUENTIAL s)) w = Inr (SHELL_EXIT os, w2) \<and>
      (r1 \<noteq> 0 \<longrightarrow>
         parse_command os (Some (Command c1 c2 OP_CONDITIONAL_NZERO s)) w = Inr (SHELL_EXIT os, w2)) \<and>
      (r1 = 0 \<longrightarrow>
         parse_command os (Some (Command c1 c2 OP_CONDITIONAL_ZERO s)) w = Inr (SHELL_EXIT os, w2))) \<and>
   (parse_command os c1 w = Inr (SHELL_EXIT os, w1) \<longrightarrow>
      parse_command os (Some (Command c1 c2 OP_SEQUENTIAL s)) w = parse_command os c2 w1)"
  using parse_simple_exit [of sc v vs os w] by auto

text \<open>
  \<open>exit\<close> alone, \<open>cd; exit\<close>, \<open>cd && exit\<close> and \<open>false || exit\<close> return the sentinel;
  \<open>exit; cd\<close> returns what \<open>cd\<close> returns.
\<close>

theorem sentinel_from_result_position_witness:
  "parse_command os0 (leaf ''exit'' []) w0 = Inr (SHELL_EXIT os0, saved w0) \<and>
   parse_command os0 (node OP_OTHER None None) w0 = Inr (SHELL_EXIT os0, w0) \<and>
   parse_command os0 (node OP_SEQUENTIAL (leaf ''cd'' []) (leaf ''exit'' [])) w0
     = Inr (SHELL_EXIT os0, w_exit) \<and>
   parse_command os0 (node OP_CONDITIONAL_ZERO (leaf ''cd'' []) (leaf ''exit'' [])) w0
     = Inr (SHELL_EXIT os0, w_exit) \<and>
   parse_command os0 (node OP_CONDITIONAL_NZERO (leaf ''false'' []) (leaf ''exit'' [])) w0
     = Inr (SHELL_EXIT os0, w_ran_exit) \<and>
   parse_command os0 (node OP_SEQUENTIAL (leaf ''exit'' []) (leaf ''cd'' [])) w0
     = parse_command os0 (leaf ''cd'' []) w_exit"
proof -
  have v: "verb (simple ''exit'' []) = Some (plain ''exit'')"
    and vs: "string (plain ''exit'') = Some ''exit''"
    and g: "get_word os0 w0 (plain ''exit'') = ''exit''"
    by (simp_all add: simple_def plain_def os0_def)
  have l: "parse_command os0 (leaf ''cd'' []) w0 = Inr (0, w_cd)" by code_simp
  have r: "parse_command os0 (leaf ''exit'' []) w_cd = Inr (SHELL_EXIT os0, w_exit)" by code_simp
  have l': "parse_command os0 (leaf ''false'' []) w0 = Inr (1, w_ran)" by code_simp
  have r': "parse_command os0 (leaf ''exit'' []) w_ran = Inr (SHELL_EXIT os0, w_ran_exit)"
    by code_simp
  have e: "parse_command os0 (leaf ''exit'' []) w0 = Inr (SHELL_EXIT os0, w_exit)" by code_simp
  note t1 = sentinel_from_result_position
    [of "simple ''exit'' []" "plain ''exit''" "''exit''" os0 w0 None None None
        0 w_exit w_exit]
  note t2 = sentinel_from_result_position
    [of "simple ''exit'' []" "plain ''exit''" "''exit''" os0 w0 "leaf ''cd'' []" "leaf ''exit'' []" None
        0 w_cd w_exit]
  note t3 = sentinel_from_result_position
    [of "simple ''exit'' []" "plain ''exit''" "''exit''" os0 w0 "leaf ''false'' []" "leaf ''exit'' []" None
        1 w_ran w_ran_exit]
  note t4 = sentinel_from_result_position
    [of "simple ''exit'' []" "plain ''exit''" "''exit''" os0 w0 "leaf ''exit'' []" "leaf ''cd'' []" None
        0 w_exit w_exit]
  have a: "parse_command os0 (leaf ''exit'' []) w0 = Inr (SHELL_EXIT os0, saved w0) \<and>
           parse_command os0 (node OP_OTHER None None) w0 = Inr (SHELL_EXIT os0, w0)"
    using t1 v vs g by (simp add: leaf_def node_def)
  have b: "parse_command os0 (node OP_SEQUENTIAL (leaf ''cd'' []) (leaf ''exit'' [])) w0
     = Inr (SHELL_EXIT os0, w_exit) \<and>
     parse_command os0 (node OP_CONDITIONAL_ZERO (leaf ''cd'' []) (leaf ''exit'' [])) w0
     = Inr (SHELL_EXIT os0, w_exit)"
    using t2 l r by (simp add: node_def)
  have c: "parse_command os0 (node OP_CONDITIONAL_NZERO (leaf ''false'' []) (leaf ''exit'' [])) w0
     = Inr (SHELL_EXIT os0, w_ran_exit)"
    using t3 l' r' by (simp add: node_def)
  have d: "parse_command os0 (node OP_SEQUENTIAL (leaf ''exit'' []) (leaf ''cd'' [])) w0
     = parse_command os0 (leaf ''cd'' []) w_exit"
    using t4 e by (simp add: node_def)
  from a b c d show ?thesis by blast
qed

text \<open>
  The sentence of the specification fails on \<open>exit; cd\<close>: the left sub-tree yields the
  sentinel and the node returns 0, the status of \<open>cd\<close>, which is not the sentinel.
\<close>

theorem sentinel_of_left_subtree_dropped:
  "parse_command os0 (leaf ''exit'' []) w0 = Inr (SHELL_EXIT os0, w_exit) \<and>
   parse_command os0 (node OP_SEQUENTIAL (leaf ''exit'' []) (leaf ''cd'' [])) w0
     = Inr (0, w_exit_cd) \<and>
   SHELL_EXIT os0 \<noteq> 0"
  by code_simp

section \<open>Results on the Simple Command Executor\<close>

subsection \<open>Calls that leave the history and the environment alone\<close>

lemma sys_dup_keeps [simp]:
  "trace (snd (sys_dup fd w)) = trace w" "environ (snd (sys_dup fd w)) = environ w" "descs (snd (sys_dup fd w)) = descs w"
  by (simp_all add: sys_dup_def split: option.splits)

lemma sys_dup2_keeps [simp]:
  "trace (snd (sys_dup2 a b w)) = trace w" "environ (snd (sys_dup2 a b w)) = environ w" "descs (snd (sys_dup2 a b w)) = descs w"
  by (simp_all add: sys_dup2_def split: option.splits)

lemma sys_close_keeps [simp]:
  "trace (snd (sys_close fd w)) = trace w" "environ (snd (sys_close fd w)) = environ w" "descs (snd (sys_close fd w)) = descs w"
  by (simp_all add: sys_close_def split: option.splits)

lemma saved_keeps [simp]: "trace (saved w) = trace w" "environ (saved w) = environ w"
  by (simp_all add: saved_def)

lemma restore_keeps [simp]:
  "trace (restore_redirection a b c w) = trace w" "environ (restore_redirection a b c w) = environ w"
  by (simp_all add: restore_redirection_def Let_def)

subsection \<open>Assignment\<close>

text \<open>\<open>strtok_r\<close> with the delimiter \<open>=\<close> returns the first run and leaves the others.\<close>

lemma runs_start:
  "s \<noteq> [] \<Longrightarrow> hd s \<noteq> CHR ''='' \<Longrightarrow>
   runs s = takeWhile (\<lambda>c. c \<noteq> CHR ''='') s # runs (dropWhile (\<lambda>c. c \<noteq> CHR ''='') s)"
proof (induction s)
  case Nil
  then show ?case by simp
next
  case (Cons c cs)
  show ?case
  proof (cases "cs = [] \<or> hd cs = CHR ''=''")
    case True
    with Cons.prems show ?thesis by (cases cs) auto
  next
    case False
    with Cons show ?thesis by (cases cs) auto
  qed
qed

lemma runs_skip: "runs (dropWhile (\<lambda>c. c = CHR ''='') s) = runs s"
  by (induction s) auto

lemma runs_drop1: "s = [] \<or> hd s = CHR ''='' \<Longrightarrow> runs (drop 1 s) = runs s"
  by (cases s) auto

lemma strtok_r_runs:
  "strtok_r s ''='' = (tok, save) \<Longrightarrow>
   tok = (case runs s of [] \<Rightarrow> None | r # rs \<Rightarrow> Some r) \<and> runs save = tl (runs s)"
proof -
  assume a: "strtok_r s ''='' = (tok, save)"
  let ?t = "dropWhile (\<lambda>c. c = CHR ''='') s"
  show ?thesis
  proof (cases "?t = []")
    case True
    then have "runs ?t = []" by (simp only: runs.simps)
    then have "runs s = []" by (simp only: runs_skip)
    with a True show ?thesis by (simp add: strtok_r_def Let_def del: dropWhile_eq_Nil_conv)
  next
    case False
    then have h: "hd ?t \<noteq> CHR ''=''" using hd_dropWhile [of "\<lambda>c. c = CHR ''=''" s] by simp
    have r: "runs s = takeWhile (\<lambda>c. c \<noteq> CHR ''='') ?t # runs (dropWhile (\<lambda>c. c \<noteq> CHR ''='') ?t)"
      using runs_start [OF False h] runs_skip [of s] by simp
    let ?u = "dropWhile (\<lambda>c. c \<noteq> CHR ''='') ?t"
    have "?u = [] \<or> hd ?u = CHR ''=''" using hd_dropWhile [of "\<lambda>c. c \<noteq> CHR ''=''" ?t] by auto
    then have "runs (drop 1 ?u) = runs ?u" by (rule runs_drop1)
    with a False r show ?thesis by (auto simp: strtok_r_def Let_def simp del: dropWhile_eq_Nil_conv)
  qed
qed

lemma assign_runs:
  "assign os cmd w =
     (if strdup_ok os w
      then (case runs cmd of n # v # rest \<Rightarrow> sys_setenv os n v w | _ \<Rightarrow> (-1, w))
      else (-1, w))"
proof -
  obtain name save where 1: "strtok_r cmd ''='' = (name, save)" by (cases "strtok_r cmd ''=''")
  obtain val save' where 2: "strtok_r save ''='' = (val, save')" by (cases "strtok_r save ''=''")
  from strtok_r_runs [OF 1] strtok_r_runs [OF 2] 1 2 show ?thesis
    by (auto simp: assign_def split: list.splits)
qed

lemma map_of_filter_other: "k \<noteq> n \<Longrightarrow> map_of (filter (\<lambda>kv. fst kv \<noteq> n) xs) k = map_of xs k"
  by (induction xs) auto

lemma sys_setenv_cases:
  "sys_setenv os n v w = (r, w') \<Longrightarrow>
     (r = 0 \<and> getenv w' n = Some v \<and> (\<forall>k. k \<noteq> n \<longrightarrow> getenv w' k = getenv w k) \<and>
        trace w' = trace w @ [E_setenv n v True]) \<or>
     (r = -1 \<and> environ w' = environ w \<and> trace w' = trace w @ [E_setenv n v False])"
  by (auto simp: sys_setenv_def getenv_def log_def map_of_filter_other split: if_splits)

lemma verb_with_eq: "CHR ''='' \<in> set cmd \<Longrightarrow> cmd \<noteq> ''cd'' \<and> cmd \<noteq> ''exit'' \<and> cmd \<noteq> ''quit''"
  by auto

lemma parse_simple_assign:
  assumes "verb s = Some v" and "string v = Some vs" and "CHR ''='' \<in> set (get_word os w v)"
  shows "parse_simple os (Some s) w = Inr (assign os (get_word os w v) (saved w))"
  using assms verb_with_eq [OF assms(3)]
  by (simp add: parse_simple_def saved_def split_beta Let_def)

text \<open>
  What an assignment does, by the runs of characters other than \<open>=\<close> in the resolved
  verb. With two runs or more, a copy of the verb and a successful call to set the variable
  give 0, the first run resolves to the second afterwards, every other name resolves as
  before, and that call is the only new system call (nothing is forked).
\<close>

lemma assignment_sets_variable:
  assumes "verb s = Some v" and "string v = Some vs" and "CHR ''='' \<in> set (get_word os w v)"
    and "runs (get_word os w v) = n # val # rest"
    and "strdup_ok os (saved w)" and "setenv_ok os (saved w) n val"
  shows "\<exists>w'. parse_simple os (Some s) w = Inr (0, w') \<and>
           getenv w' n = Some val \<and> (\<forall>k. k \<noteq> n \<longrightarrow> getenv w' k = getenv w k) \<and>
           trace w' = trace w @ [E_setenv n val True]"
proof -
  obtain r w' where a: "sys_setenv os n val (saved w) = (r, w')"
    by (cases "sys_setenv os n val (saved w)")
  then have r: "r = 0" using assms(6) by (auto simp: sys_setenv_def)
  have "parse_simple os (Some s) w = Inr (r, w')"
    using parse_simple_assign [OF assms(1-3)] assms(4,5) a by (simp add: assign_runs)
  with sys_setenv_cases [OF a] r show ?thesis by (auto simp: getenv_def)
qed

text \<open>When the call to set the variable fails, the result is -1 and the environment is
  as before.\<close>

lemma assignment_setenv_fails:
  assumes "verb s = Some v" and "string v = Some vs" and "CHR ''='' \<in> set (get_word os w v)"
    and "runs (get_word os w v) = n # val # rest"
    and "strdup_ok os (saved w)" and "\<not> setenv_ok os (saved w) n val"
  shows "\<exists>w'. parse_simple os (Some s) w = Inr (-1, w') \<and> environ w' = environ w \<and>
           trace w' = trace w @ [E_setenv n val False]"
proof -
  obtain r w' where a: "sys_setenv os n val (saved w) = (r, w')"
    by (cases "sys_setenv os n val (saved w)")
  then have r: "r = -1" using assms(6) by (auto simp: sys_setenv_def)
  have "parse_simple os (Some s) w = Inr (r, w')"
    using parse_simple_assign [OF assms(1-3)] assms(4,5) a by (simp add: assign_runs)
  with sys_setenv_cases [OF a] r show ?thesis by auto
qed

text \<open>With fewer than two runs, or without a copy of the verb, the result is -1 and
  nothing is called.\<close>

lemma assignment_without_call:
  assumes "verb s = Some v" and "string v = Some vs" and "CHR ''='' \<in> set (get_word os w v)"
    and "length (runs (get_word os w v)) < 2 \<or> \<not> strdup_ok os (saved w)"
  shows "parse_simple os (Some s) w = Inr (-1, saved w)"
proof -
  have "assign os (get_word os w v) (saved w) = (-1, saved w)"
    using assms(4)
    by (cases "runs (get_word os w v)"; cases "tl (runs (get_word os w v))")
      (auto simp: assign_runs)
  with parse_simple_assign [OF assms(1-3)] show ?thesis by simp
qed

text \<open>
  C6: the specification has the verb split at its first \<open>=\<close>, the value being everything
  behind it, and has the command fail when the split yields no usable name. The code
  takes name and value with two calls of \<open>strtok_r\<close>, which ends the value at the next
  \<open>=\<close> and skips leading ones: the verb \<open>A=b=c\<close> sets \<open>A\<close> to \<open>b\<close>, not to \<open>b=c\<close>, and the
  verb \<open>=a=b\<close>, whose split at the first \<open>=\<close> has an empty name, sets \<open>a\<close> to \<open>b\<close> and
  returns 0.
\<close>

theorem assignment_value_ends_at_next_eq:
  "parse_simple os0 (Some (simple ''A=b=c'' [])) w0 = Inr (0, w_assigned) \<and>
   getenv w_assigned ''A'' = Some ''b'' \<and> getenv w_assigned ''A'' \<noteq> Some ''b=c'' \<and>
   parse_simple os0 (Some (simple ''=a=b'' [])) w0 = Inr (0, w_assigned_a) \<and>
   getenv w_assigned_a ''a'' = Some ''b''"
  by code_simp

subsection \<open>The values \<open>parse_simple\<close> returns\<close>

lemma assign_result: "fst (assign os cmd w) = 0 \<or> fst (assign os cmd w) = -1"
  by (auto simp: assign_runs sys_setenv_def split: list.splits)

lemma external_result: "external os s vs w = Inr (r, w') \<Longrightarrow> 0 \<le> r \<and> r \<le> 255"
  using WEXITSTATUS_range by (auto simp: external_def split: if_splits sum.splits)

lemma parse_simple_values:
  assumes "parse_simple os sp w = Inr (r, w')"
  shows "(0 \<le> r \<and> r \<le> 255) \<or> r = SHELL_EXIT os \<or> r = -1"
proof (cases sp)
  case None
  with assms show ?thesis by (simp add: parse_simple_def)
next
  case (Some s)
  show ?thesis
  proof (cases "verb s")
    case None
    with Some assms show ?thesis by (simp add: parse_simple_def)
  next
    case (Some v)
    note v = this
    show ?thesis
    proof (cases "string v")
      case None
      with v \<open>sp = Some s\<close> assms show ?thesis by (simp add: parse_simple_def)
    next
      case (Some vs)
      let ?cmd = "get_word os w v"
      consider (cd) "?cmd = ''cd''" | (ex) "?cmd = ''exit'' \<or> ?cmd = ''quit''"
        | (asg) "?cmd \<noteq> ''cd''" "?cmd \<noteq> ''exit''" "?cmd \<noteq> ''quit''" "CHR ''='' \<in> set ?cmd"
        | (ext) "?cmd \<noteq> ''cd''" "?cmd \<noteq> ''exit''" "?cmd \<noteq> ''quit''" "CHR ''='' \<notin> set ?cmd"
        by blast
      then show ?thesis
      proof cases
        case cd
        with Some v \<open>sp = Some s\<close> assms show ?thesis
          by (auto simp: parse_simple_def split_beta Let_def split: sum.splits if_splits)
      next
        case ex
        with Some v \<open>sp = Some s\<close> assms show ?thesis
          by (auto simp: parse_simple_def split_beta Let_def shell_exit_def)
      next
        case asg
        with Some v \<open>sp = Some s\<close> assms assign_result [of os ?cmd "saved w"] show ?thesis
          by (auto simp: parse_simple_def split_beta Let_def saved_def)
      next
        case ext
        with Some v \<open>sp = Some s\<close> assms
        have "external os s vs (saved w) = Inr (r, w')"
          by (simp add: parse_simple_def split_beta Let_def saved_def)
        from external_result [OF this] show ?thesis by simp
      qed
    qed
  qed
qed

text \<open>
  C5, as the code has it: a result of the Simple Command Executor is an exit code from
  0 to 255, the sentinel, or -1. A null command and a null verb string give -1, and so
  does a malformed assignment, one whose verb has fewer than two runs of characters
  other than \<open>=\<close>.
\<close>

theorem parse_simple_status_values:
  "(parse_simple os sp w = Inr (r, w') \<longrightarrow> (0 \<le> r \<and> r \<le> 255) \<or> r = SHELL_EXIT os \<or> r = -1) \<and>
   parse_simple os None w = Inr (-1, w) \<and>
   (verb s = Some v \<and> string v = None \<longrightarrow> parse_simple os (Some s) w = Inr (-1, w)) \<and>
   (verb s = Some v \<and> string v = Some vs \<and> CHR ''='' \<in> set (get_word os w v) \<and>
      length (runs (get_word os w v)) < 2 \<longrightarrow>
      parse_simple os (Some s) w = Inr (-1, saved w))"
proof -
  have a: "parse_simple os sp w = Inr (r, w') \<longrightarrow>
             (0 \<le> r \<and> r \<le> 255) \<or> r = SHELL_EXIT os \<or> r = -1"
    using parse_simple_values by blast
  have b: "parse_simple os None w = Inr (-1, w)"
    by (simp add: parse_simple_def)
  have c: "verb s = Some v \<and> string v = None \<longrightarrow> parse_simple os (Some s) w = Inr (-1, w)"
    by (simp add: parse_simple_def)
  have d: "verb s = Some v \<and> string v = Some vs \<and> CHR ''='' \<in> set (get_word os w v) \<and>
      length (runs (get_word os w v)) < 2 \<longrightarrow>
      parse_simple os (Some s) w = Inr (-1, saved w)"
  proof
    assume h: "verb s = Some v \<and> string v = Some vs \<and> CHR ''='' \<in> set (get_word os w v) \<and>
      length (runs (get_word os w v)) < 2"
    then have "parse_simple os (Some s) w = Inr (assign os (get_word os w v) (saved w))"
      using parse_simple_assign by blast
    moreover have "assign os (get_word os w v) (saved w) = (-1, saved w)"
      using h by (cases "runs (get_word os w v)"; cases "tl (runs (get_word os w v))")
        (auto simp: assign_runs)
    ultimately show "parse_simple os (Some s) w = Inr (-1, saved w)" by simp
  qed
  from a b c d show ?thesis by blast
qed

text \<open>
  A program that is not found gives 1; the null command and a verb without a string give
  -1; the verb \<open>A=\<close> has one run and gives -1.
\<close>

theorem parse_simple_status_values_witness:
  "parse_simple os0 (Some (simple ''nosuch'' [])) w0 = Inr (1, w_ran) \<and>
   ((0::int) \<le> 1 \<and> (1::int) \<le> 255 \<or> 1 = SHELL_EXIT os0 \<or> (1::int) = -1) \<and>
   parse_simple os0 None w0 = Inr (-1, w0) \<and>
   parse_simple os0 (Some null_verb) w0 = Inr (-1, w0) \<and>
   length (runs (get_word os0 w0 (plain ''A=''))) < 2 \<and>
   parse_simple os0 (Some (simple ''A='' [])) w0 = Inr (-1, saved w0)"
proof -
  have e: "parse_simple os0 (Some (simple ''nosuch'' [])) w0 = Inr (1, w_ran)" by code_simp
  have h: "verb (simple ''A='' []) = Some (plain ''A='') \<and>
           string (plain ''A='') = Some ''A='' \<and>
           CHR ''='' \<in> set (get_word os0 w0 (plain ''A='')) \<and>
           length (runs (get_word os0 w0 (plain ''A=''))) < 2"
    by (simp add: simple_def plain_def os0_def)
  have n: "verb null_verb = Some (Word None False None) \<and> string (Word None False None) = None"
    by (simp add: null_verb_def simple_def)
  note t = parse_simple_status_values
    [of os0 "Some (simple ''nosuch'' [])" w0 1 w_ran "simple ''A='' []" "plain ''A=''" "''A=''"]
  note t' = parse_simple_status_values
    [of os0 None w0 0 w0 null_verb "Word None False None" "[]"]
  have "parse_simple os0 (Some null_verb) w0 = Inr (-1, w0)"
    using t' n by blast
  with t e h show ?thesis by simp
qed

text \<open>
  The sentence of the specification fails on the null command: the result is -1, which
  is neither an exit code from 0 to 255 nor the sentinel.
\<close>

theorem parse_simple_null_gives_minus_one:
  "parse_simple os0 None w0 = Inr (-1, w0) \<and>
   \<not> ((0::int) \<le> -1 \<and> (-1::int) \<le> 255) \<and> (-1::int) \<noteq> SHELL_EXIT os0"
  by code_simp

subsection \<open>The built-in \<open>cd\<close>\<close>





lemma parse_simple_cd:
  assumes "verb s = Some v" and "string v = Some vs" and "get_word os w v = ''cd''"
  shows "parse_simple os (Some s) w =
     (case solve_redirection os s (saved w) of
        Inl e \<Rightarrow> Inl e
      | Inr w4 \<Rightarrow>
          (case shell_cd os (params s) w4 of
             Inl e \<Rightarrow> Inl e
           | Inr (res, w5) \<Rightarrow>
               Inr (if res then 0 else 1,
                    restore_redirection (fst (sys_dup STDIN_FILENO w))
                      (fst (sys_dup STDOUT_FILENO (snd (sys_dup STDIN_FILENO w))))
                      (fst (sys_dup STDERR_FILENO (snd (sys_dup STDOUT_FILENO (snd (sys_dup STDIN_FILENO w))))))
                      w5)))"
  using assms by (simp add: parse_simple_def saved_def split_beta Let_def)

text \<open>Without redirection targets the built-in returns, whatever its arguments.\<close>

lemma solve_redirection_none:
  "inp s = None \<Longrightarrow> out s = None \<Longrightarrow> err s = None \<Longrightarrow> solve_redirection os s w = Inr w"
  by (simp add: solve_redirection_def redirect_def alias_err_def)

lemma shell_cd_returns:
  "\<forall>d \<in> set dir. string d \<noteq> None \<Longrightarrow> \<exists>res w'. shell_cd os dir w = Inr (res, w')"
  by (cases dir) (auto simp: shell_cd_def split: prod.splits)

lemma cd_returns_without_redirection:
  assumes "verb s = Some v" and "string v = Some vs" and "get_word os w v = ''cd''"
    and "inp s = None" and "out s = None" and "err s = None"
    and "\<forall>d \<in> set (params s). string d \<noteq> None"
  shows "\<exists>r w'. parse_simple os (Some s) w = Inr (r, w')"
proof -
  from shell_cd_returns [OF assms(7)] obtain res w5
    where "shell_cd os (params s) (saved w) = Inr (res, w5)" by blast
  then show ?thesis
    unfolding parse_simple_cd [OF assms(1-3)] solve_redirection_none [OF assms(4-6)]
    by simp
qed



section \<open>Results on the Redirection Manager\<close>

subsection \<open>What the descriptor calls do to the table\<close>

lemma lowest_free_nth: "lowest_free t < length t \<Longrightarrow> t ! lowest_free t = None"
  by (induction t rule: lowest_free.induct) auto

lemma lowest_free_free: "fd_lookup w (int (lowest_free (fdt w))) = None"
  by (simp add: fd_lookup_def lowest_free_nth)

lemma fd_lookup_fd_set:
  "fd_lookup (w\<lparr>fdt := fd_set (fdt w) n v\<rparr>) k = (if k = int n then v else fd_lookup w k)"
proof (cases "0 \<le> k")
  case False
  then show ?thesis by (simp add: fd_lookup_def)
next
  case True
  then obtain m where k: "k = int m" using nonneg_int_cases by blast
  show ?thesis
  proof (cases "m = n")
    case True
    have "n < length (fdt w) + (Suc n - length (fdt w))" by arith
    with True k show ?thesis by (simp add: fd_lookup_def fd_set_def)
  next
    case False
    with k show ?thesis
      by (auto simp: fd_lookup_def fd_set_def nth_append)
  qed
qed

lemma fd_lookup_clear:
  "fd_lookup (w\<lparr>fdt := (fdt w)[n := None]\<rparr>) k = (if k = int n then None else fd_lookup w k)"
proof (cases "0 \<le> k")
  case False
  then show ?thesis by (simp add: fd_lookup_def)
next
  case True
  then obtain m where k: "k = int m" using nonneg_int_cases by blast
  then show ?thesis by (auto simp: fd_lookup_def)
qed

lemma fd_lookup_neg: "fd < 0 \<Longrightarrow> fd_lookup w fd = None"
  by (simp add: fd_lookup_def)

lemma fd_lookup_log [simp]: "fd_lookup (log e w) k = fd_lookup w k"
  by (simp add: fd_lookup_def log_def)

lemma sys_close_lookup:
  "fd_lookup (snd (sys_close fd w)) k = (if k = fd then None else fd_lookup w k)"
proof (cases "fd_lookup w fd")
  case None
  then show ?thesis by (simp add: sys_close_def)
next
  case (Some d)
  then have "0 \<le> fd" using fd_lookup_neg [of fd w] by (cases "0 \<le> fd") auto
  with Some show ?thesis by (simp add: sys_close_def fd_lookup_clear)
qed

lemma sys_dup2_lookup:
  "fd_lookup w a = Some d \<Longrightarrow> 0 \<le> b \<Longrightarrow>
   fd_lookup (snd (sys_dup2 a b w)) k = (if k = b then Some d else fd_lookup w k)"
  by (simp add: sys_dup2_def fd_lookup_fd_set)

lemma sys_dup2_closed: "fd_lookup w a = None \<Longrightarrow> snd (sys_dup2 a b w) = w"
  by (simp add: sys_dup2_def)

lemma sys_open_ok:
  assumes "sys_open os p f w = (fd, w1)" and "fd \<noteq> -1"
  shows "0 \<le> fd \<and> fd_lookup w fd = None \<and> descs w1 = descs w @ [File p f] \<and>
         (\<forall>k. fd_lookup w1 k = (if k = fd then Some (length (descs w)) else fd_lookup w k))"
proof (cases "open_ok os w p f")
  case False
  with assms show ?thesis by (simp add: sys_open_def)
next
  case True
  with assms(1) have fd: "fd = int (lowest_free (fdt w))"
    and w1: "w1 = log (E_open p f True)
              (w\<lparr>fdt := fd_set (fdt w) (lowest_free (fdt w)) (Some (length (descs w))),
                 descs := descs w @ [File p f]\<rparr>)"
    by (auto simp: sys_open_def)
  have "fd_lookup w fd = None" using fd lowest_free_free by simp
  moreover have "descs w1 = descs w @ [File p f]" using w1 by (simp add: log_def)
  moreover have "\<forall>k. fd_lookup w1 k = (if k = fd then Some (length (descs w)) else fd_lookup w k)"
  proof
    fix k
    have "fd_lookup w1 k = fd_lookup (w\<lparr>fdt := fd_set (fdt w) (lowest_free (fdt w)) (Some (length (descs w)))\<rparr>) k"
      using w1 by (simp add: fd_lookup_def log_def)
    then show "fd_lookup w1 k = (if k = fd then Some (length (descs w)) else fd_lookup w k)"
      using fd by (simp add: fd_lookup_fd_set)
  qed
  ultimately show ?thesis using fd by simp
qed

lemma redirect_absent:
  "x = None \<or> (\<exists>wd. x = Some wd \<and> string wd = None) \<Longrightarrow> redirect os x f t w = Inr w"
  by (auto simp: redirect_def)

lemma redirect_present:
  assumes "redirect os (Some wd) f t w = Inr w'" and "string wd = Some p" and "0 \<le> t"
  shows "\<exists>fd. fd_lookup w fd = None \<and> descs w' = descs w @ [File p f] \<and>
           (\<forall>k. fd_lookup w' k =
                  (if k = fd then None else if k = t then Some (length (descs w))
                   else fd_lookup w k))"
proof -
  obtain fd w1 where o: "sys_open os p f w = (fd, w1)" by (cases "sys_open os p f w")
  with assms have ne: "fd \<noteq> -1" and w': "w' = snd (sys_close fd (snd (sys_dup2 fd t w1)))"
    by (auto simp: redirect_def split: if_splits)
  from sys_open_ok [OF o ne] have
    fd0: "0 \<le> fd" and free: "fd_lookup w fd = None" and ds: "descs w1 = descs w @ [File p f]" and
    lk: "\<And>k. fd_lookup w1 k = (if k = fd then Some (length (descs w)) else fd_lookup w k)"
    by auto
  have "fd_lookup w1 fd = Some (length (descs w))" using lk by simp
  note d2 = sys_dup2_lookup [OF this assms(3)]
  have "\<forall>k. fd_lookup w' k =
          (if k = fd then None else if k = t then Some (length (descs w)) else fd_lookup w k)"
    using w' d2 lk by (simp add: sys_close_lookup)
  moreover have "descs w' = descs w @ [File p f]" using w' ds by simp
  ultimately show ?thesis using free by blast
qed

text \<open>A redirection of another descriptor leaves an open descriptor as it is.\<close>

lemma redirect_other:
  assumes "redirect os x f t w = Inr w'" and "0 \<le> t" and "k \<noteq> t" and "fd_lookup w k \<noteq> None"
  shows "fd_lookup w' k = fd_lookup w k \<and> (\<exists>ds. descs w' = descs w @ ds)"
proof (cases "x = None \<or> (\<exists>wd. x = Some wd \<and> string wd = None)")
  case True
  from redirect_absent [OF this] assms(1) show ?thesis by simp
next
  case False
  then obtain wd p where x: "x = Some wd" and p: "string wd = Some p" by auto
  from redirect_present [OF assms(1) [unfolded x] p assms(2)] obtain fd where
    "fd_lookup w fd = None" and "descs w' = descs w @ [File p f]" and
    "\<forall>k. fd_lookup w' k =
        (if k = fd then None else if k = t then Some (length (descs w)) else fd_lookup w k)"
    by blast
  with assms(3,4) show ?thesis by auto
qed

lemma solve_redirection_steps:
  assumes "solve_redirection os s w = Inr w'"
  obtains w1 w2 w3 fe where
    "redirect os (inp s) [O_RDONLY] STDIN_FILENO w = Inr w1"
    "redirect os (out s) (out_flags os s) STDOUT_FILENO w1 = Inr w2"
    "redirect os (err s) fe STDERR_FILENO w2 = Inr w3"
    "alias_err s w3 = Inr w'"
  using assms unfolding solve_redirection_def Let_def out_flags_def
  by (auto split: sum.splits)

lemma std_fds [simp]: "0 \<le> STDIN_FILENO" "0 \<le> STDOUT_FILENO" "0 \<le> STDERR_FILENO"
  "STDOUT_FILENO \<noteq> STDIN_FILENO" "STDOUT_FILENO \<noteq> STDERR_FILENO"
  by (simp_all add: STDIN_FILENO_def STDOUT_FILENO_def STDERR_FILENO_def)

text \<open>
  Take a simple command with an output and an error target whose strings are
  present, run \<open>solve_redirection\<close> in a process whose standard output is open, and let it
  return (no open failed). When the two strings are equal, descriptors 1 and 2 refer to
  one and the same open file description afterwards, the one that the open of the output
  target created, so both streams share its offset. When the two strings differ,
  whatever files they name, descriptors 1 and 2 do not refer to the same description.
  (The standard output has to be open on entry: otherwise \<open>open\<close> can hand out descriptor
  1 itself, which the block closes again after its \<open>dup2\<close>.)
\<close>

lemma equal_paths_alias_stderr:
  assumes "out s = Some o_w" and "err s = Some e_w"
    and "string o_w = Some p" and "string e_w = Some q"
    and "fd_lookup w STDOUT_FILENO \<noteq> None"
    and "solve_redirection os s w = Inr w'"
  shows "(p = q \<longrightarrow>
            (\<exists>d. fd_lookup w' STDOUT_FILENO = Some d \<and> fd_lookup w' STDERR_FILENO = Some d \<and>
                 d < length (descs w') \<and> descs w' ! d = File p (out_flags os s))) \<and>
         (p \<noteq> q \<longrightarrow> fd_lookup w' STDERR_FILENO \<noteq> fd_lookup w' STDOUT_FILENO)"
proof -
  from assms(6) obtain w1 w2 w3 fe where
    1: "redirect os (inp s) [O_RDONLY] STDIN_FILENO w = Inr w1" and
    2: "redirect os (out s) (out_flags os s) STDOUT_FILENO w1 = Inr w2" and
    3: "redirect os (err s) fe STDERR_FILENO w2 = Inr w3" and
    4: "alias_err s w3 = Inr w'"
    by (rule solve_redirection_steps)
  let ?n = "length (descs w1)"
  have open1: "fd_lookup w1 STDOUT_FILENO \<noteq> None"
    using redirect_other [OF 1 _ _ assms(5)] assms(5) by simp
  from redirect_present [OF 2 [unfolded assms(1)] assms(3)] obtain fd where
    fd: "fd_lookup w1 fd = None" and d2: "descs w2 = descs w1 @ [File p (out_flags os s)]" and
    l2: "\<And>k. fd_lookup w2 k = (if k = fd then None else if k = STDOUT_FILENO then Some ?n else fd_lookup w1 k)"
    by auto
  have "fd \<noteq> STDOUT_FILENO" using fd open1 by auto
  then have out2: "fd_lookup w2 STDOUT_FILENO = Some ?n" using l2 by simp
  from redirect_present [OF 3 [unfolded assms(2)] assms(4)] obtain fd' where
    fd': "fd_lookup w2 fd' = None" and d3: "descs w3 = descs w2 @ [File q fe]" and
    l3: "\<And>k. fd_lookup w3 k = (if k = fd' then None else if k = STDERR_FILENO then Some (length (descs w2)) else fd_lookup w2 k)"
    by auto
  have "fd' \<noteq> STDOUT_FILENO" using fd' out2 by auto
  then have out3: "fd_lookup w3 STDOUT_FILENO = Some ?n" using l3 out2 by simp
  have err3: "fd_lookup w3 STDERR_FILENO = None \<or> fd_lookup w3 STDERR_FILENO = Some (Suc ?n)"
    using l3 d2 by simp
  have ds: "descs w3 = descs w1 @ [File p (out_flags os s), File q fe]" using d2 d3 by simp
  show ?thesis
  proof (cases "p = q")
    case True
    with 4 assms(1-4) have w': "w' = snd (sys_dup2 STDOUT_FILENO STDERR_FILENO w3)"
      by (simp add: alias_err_def)
    have "fd_lookup w' STDOUT_FILENO = Some ?n" "fd_lookup w' STDERR_FILENO = Some ?n"
      using sys_dup2_lookup [OF out3, of STDERR_FILENO] out3 w' by simp_all
    moreover have "descs w' = descs w3" using w' by simp
    then have "?n < length (descs w') \<and> descs w' ! ?n = File p (out_flags os s)"
      using ds by (simp add: nth_append)
    ultimately show ?thesis using True by blast
  next
    case False
    with 4 assms(1-4) have "w' = w3" by (simp add: alias_err_def)
    with out3 err3 False show ?thesis by auto
  qed
qed

text \<open>
  \<open>ls > f 2> f\<close>: both descriptors on description 1, the first open of \<open>f\<close>;
  \<open>ls > f 2> ./f\<close>: the same file under two strings, and two descriptions.
\<close>

lemma equal_paths_alias_stderr_at_terminal:
  "fd_lookup w0 STDOUT_FILENO \<noteq> None \<and>
   solve_redirection os0 both_to_f w0 = Inr w_both_to_f \<and>
   fd_lookup w_both_to_f STDOUT_FILENO = Some 1 \<and>
   fd_lookup w_both_to_f STDERR_FILENO = Some 1 \<and>
   descs w_both_to_f ! 1 = File ''f'' (out_flags os0 both_to_f) \<and>
   solve_redirection os0 out_f_err_dot_f w0 = Inr w_out_f_err_dot_f \<and>
   fd_lookup w_out_f_err_dot_f STDERR_FILENO \<noteq> fd_lookup w_out_f_err_dot_f STDOUT_FILENO"
proof -
  have o: "out both_to_f = Some (plain ''f'')" and e: "err both_to_f = Some (plain ''f'')"
    and p: "string (plain ''f'') = Some ''f''"
    by (simp_all add: both_to_f_def plain_def)
  have c: "fd_lookup w0 STDOUT_FILENO \<noteq> None" by code_simp
  have r: "solve_redirection os0 both_to_f w0 = Inr w_both_to_f" by code_simp
  have l: "fd_lookup w_both_to_f STDOUT_FILENO = Some 1" by code_simp
  from equal_paths_alias_stderr [OF o e p p c r] l
  have a: "fd_lookup w_both_to_f STDERR_FILENO = Some 1 \<and>
        descs w_both_to_f ! 1 = File ''f'' (out_flags os0 both_to_f)"
    by auto
  have o': "out out_f_err_dot_f = Some (plain ''f'')"
    and e': "err out_f_err_dot_f = Some (plain ''./f'')"
    and q: "string (plain ''./f'') = Some ''./f''"
    by (simp_all add: out_f_err_dot_f_def plain_def)
  have r': "solve_redirection os0 out_f_err_dot_f w0 = Inr w_out_f_err_dot_f" by code_simp
  from equal_paths_alias_stderr [OF o' e' p q c r']
  have b: "fd_lookup w_out_f_err_dot_f STDERR_FILENO \<noteq> fd_lookup w_out_f_err_dot_f STDOUT_FILENO"
    by simp
  from c r l a r' b show ?thesis by blast
qed


end
